theory Spec2Isabelle
  imports Main "HOL-Library.AList"
begin

section \<open>Errors\<close>

text \<open>
  Every exception the two modules can raise is a value. The constructors carry the names
  the specification gives to the failures; the comment says which Python exception it is.
\<close>

datatype error =
    UnknownFormat string        \<comment> \<open>the failed \<open>assert out is not None\<close>, with the extension tried\<close>
  | UnsupportedFormat string    \<comment> \<open>the failed assertion on the format tag\<close>
  | MalformedCellBlock          \<comment> \<open>the failed \<open>assert value.shape[1] == ...\<close>\<close>
  | UnknownElementType string   \<comment> \<open>KeyError of an element-type table\<close>
  | UnsupportedDtype string     \<comment> \<open>KeyError of \<open>numpy_to_exodus_dtype\<close>\<close>
  | StorageError string         \<comment> \<open>an error of the array library or of the storage engine\<close>
  | Unmodelled string           \<comment> \<open>input outside the fragment this theory models\<close>

definition bind_err :: "error + 'a \<Rightarrow> ('a \<Rightarrow> error + 'b) \<Rightarrow> error + 'b" where
  "bind_err m f = (case m of Inl e \<Rightarrow> Inl e | Inr x \<Rightarrow> f x)"

section \<open>The format dispatcher (helpers.py)\<close>

definition extension_to_filetype :: "(string \<times> string) list" where
  "extension_to_filetype =
    [(''.e'', ''exodus''),
     (''.ex2'', ''exodus''),
     (''.exo'', ''exodus''),
     (''.med'', ''med''),
     (''.mesh'', ''medit''),
     (''.msh'', ''gmsh-binary''),
     (''.xml'', ''dolfin-xml''),
     (''.post'', ''permas''),
     (''.post.gz'', ''permas''),
     (''.dato'', ''permas''),
     (''.dato.gz'', ''permas''),
     (''.h5m'', ''moab''),
     (''.off'', ''off''),
     (''.stl'', ''stl-binary''),
     (''.vtu'', ''vtu-binary''),
     (''.vtk'', ''vtk-binary''),
     (''.xdmf'', ''xdmf''),
     (''.xmf'', ''xdmf''),
     (''.inp'', ''abaqus'')]"

text \<open>Python's \<open>s.split(sep)\<close> for a one-character separator: never the empty list.\<close>

fun split :: "char \<Rightarrow> string \<Rightarrow> string list" where
  "split sep [] = [[]]"
| "split sep (c # cs) =
     (if c = sep then [] # split sep cs
      else (case split sep cs of [] \<Rightarrow> [[c]] | p # ps \<Rightarrow> (c # p) # ps))"

text \<open>\<open>[".{}".format(ext) for ext in filename.split(".")[1:]]\<close>\<close>

definition dot_suffixes :: "string \<Rightarrow> string list" where
  "dot_suffixes filename = map (\<lambda>ext. ''.'' @ ext) (tl (split (CHR ''.'') filename))"

text \<open>
  The loop of \<open>_filetype_from_filename\<close> over the reversed suffixes; the state is the
  pair of \<open>ext\<close> and \<open>out\<close>.
\<close>

fun scan_suffixes :: "string list \<Rightarrow> string \<Rightarrow> string option \<Rightarrow> string \<times> string option" where
  "scan_suffixes [] ext out = (ext, out)"
| "scan_suffixes (suffix # rest) ext out =
     (let ext' = suffix @ ext in
      scan_suffixes rest ext'
        (case map_of extension_to_filetype ext' of Some f \<Rightarrow> Some f | None \<Rightarrow> out))"

definition filetype_from_filename :: "string \<Rightarrow> error + string" where
  "filetype_from_filename filename =
     (case scan_suffixes (rev (dot_suffixes filename)) [] None of
        (ext, None) \<Rightarrow> Inl (UnknownFormat ext)
      | (ext, Some out) \<Rightarrow> Inr out)"

text \<open>
  The specification's wording of the same resolution: the compound suffixes of the file
  name, the most specific (longest) first, and the first of them that the table knows.
\<close>

fun tails :: "'a list \<Rightarrow> 'a list list" where
  "tails [] = []"
| "tails (x # xs) = (x # xs) # tails xs"

definition compound_suffixes :: "string \<Rightarrow> string list" where
  "compound_suffixes filename = map concat (tails (dot_suffixes filename))"

definition resolve_longest_suffix :: "string \<Rightarrow> error + string" where
  "resolve_longest_suffix filename =
     (case List.find (\<lambda>e. map_of extension_to_filetype e \<noteq> None) (compound_suffixes filename) of
        Some e \<Rightarrow> (case map_of extension_to_filetype e of
                     Some f \<Rightarrow> Inr f
                   | None \<Rightarrow> Inl (UnknownFormat e))
      | None \<Rightarrow> Inl (UnknownFormat (concat (dot_suffixes filename))))"

subsection \<open>Two-dimensional arrays\<close>

text \<open>
  A numpy array of rank two: the name of its dtype, its second extent (which an array
  without rows still has) and its rows.
\<close>

record 'a array2 =
  dtype :: string
  ncols :: nat
  rows :: "'a list list"

definition nrows :: "'a array2 \<Rightarrow> nat" where
  "nrows a = length (rows a)"

definition wf_array2 :: "'a array2 \<Rightarrow> bool" where
  "wf_array2 a = list_all (\<lambda>r. length r = ncols a) (rows a)"

subsection \<open>Writing through the dispatcher\<close>

text \<open>
  What \<open>helpers.write\<close> ends in when nothing is raised: the call of one codec's
  \<open>write\<close>, with its \<open>write_binary\<close> flag where it has one.
\<close>

datatype codec_call =
    H5m_write | Ansys_write bool | Gmsh_write bool | Med_write | Medit_write
  | Dolfin_write | Off_write | Permas_write | Stl_write bool | Vtu_write bool
  | Vtk_write bool | Xdmf_write | Abaqus_write | Exodus_write

text \<open>\<open>if not file_format\<close>: \<open>None\<close> and the empty string are both false.\<close>

definition resolve_format :: "string \<Rightarrow> string option \<Rightarrow> error + string" where
  "resolve_format filename file_format =
     (case file_format of
        None \<Rightarrow> filetype_from_filename filename
      | Some f \<Rightarrow> if f = [] then filetype_from_filename filename else Inr f)"

text \<open>
  The sanity loop over \<open>mesh.cells.items()\<close>. The table \<open>gmsh_io.num_nodes_per_cell\<close>
  is not part of the sources at hand, so it is the parameter \<open>arity\<close>; a key it lacks
  is a KeyError.
\<close>

fun check_cells :: "(string \<rightharpoonup> nat) \<Rightarrow> (string \<times> 'a array2) list \<Rightarrow> error + unit" where
  "check_cells arity [] = Inr ()"
| "check_cells arity ((key, val) # rest) =
     (case arity key of
        None \<Rightarrow> Inl (UnknownElementType key)
      | Some n \<Rightarrow> if ncols val = n then check_cells arity rest else Inl MalformedCellBlock)"

definition select_codec :: "string \<Rightarrow> error + codec_call" where
  "select_codec file_format =
     (if file_format = ''moab'' then Inr H5m_write
      else if file_format \<in> set [''ansys-ascii'', ''ansys-binary'']
        then Inr (Ansys_write (file_format = ''ansys-binary''))
      else if file_format \<in> set [''gmsh-ascii'', ''gmsh-binary'']
        then Inr (Gmsh_write (file_format = ''gmsh-binary''))
      else if file_format = ''med'' then Inr Med_write
      else if file_format = ''medit'' then Inr Medit_write
      else if file_format = ''dolfin-xml'' then Inr Dolfin_write
      else if file_format = ''off'' then Inr Off_write
      else if file_format = ''permas'' then Inr Permas_write
      else if file_format \<in> set [''stl-ascii'', ''stl-binary'']
        then Inr (Stl_write (file_format \<noteq> ''stl-ascii''))
      else if file_format = ''vtu-ascii'' then Inr (Vtu_write False)
      else if file_format \<in> set [''vtu'', ''vtu-binary''] then Inr (Vtu_write True)
      else if file_format = ''vtk-ascii'' then Inr (Vtk_write False)
      else if file_format \<in> set [''vtk'', ''vtk-binary''] then Inr (Vtk_write True)
      else if file_format \<in> set [''xdmf'', ''xdmf3''] then Inr Xdmf_write
      else if file_format = ''abaqus'' then Inr Abaqus_write
      else if file_format = ''exodus'' then Inr Exodus_write
      else Inl (UnsupportedFormat file_format))"

definition dispatch_write ::
  "(string \<rightharpoonup> nat) \<Rightarrow> string \<Rightarrow> (string \<times> 'a array2) list \<Rightarrow> string option
     \<Rightarrow> error + codec_call" where
  "dispatch_write arity filename cells file_format =
     bind_err (resolve_format filename file_format) (\<lambda>fmt.
     bind_err (check_cells arity cells) (\<lambda>_.
     select_codec fmt))"

section \<open>The element-type registry (exodus\_io.py)\<close>

definition exodus_to_meshio_type :: "(string \<times> string) list" where
  "exodus_to_meshio_type =
    [(''BEAM'', ''line''),
     (''BEAM2'', ''line''),
     (''BEAM3'', ''line3''),
     (''BAR2'', ''line''),
     (''SHELL'', ''quad''),
     (''SHELL4'', ''quad''),
     (''SHELL8'', ''quad8''),
     (''SHELL9'', ''quad9''),
     (''QUAD'', ''quad''),
     (''QUAD4'', ''quad''),
     (''QUAD5'', ''quad5''),
     (''QUAD8'', ''quad8''),
     (''QUAD9'', ''quad9''),
     (''TRIANGLE'', ''triangle''),
     (''TRI3'', ''triangle''),
     (''TRI7'', ''triangle7''),
     (''TRI6'', ''triangle6''),
     (''HEX'', ''hexahedron''),
     (''HEXAHEDRON'', ''hexahedron''),
     (''HEX8'', ''hexahedron''),
     (''HEX9'', ''hexahedron9''),
     (''HEX20'', ''hexahedron20''),
     (''HEX27'', ''hexahedron27''),
     (''TETRA'', ''tetra''),
     (''TETRA4'', ''tetra4''),
     (''TETRA8'', ''tetra8''),
     (''TETRA10'', ''tetra10''),
     (''TETRA14'', ''tetra14''),
     (''PYRAMID'', ''pyramid''),
     (''WEDGE'', ''wedge'')]"

text \<open>
  A dict comprehension \<open>{v: k for k, v in d.items()}\<close>: the pairs are stored one after
  the other, a later pair replacing the value of a key that is already there.
\<close>

definition invert_dict :: "('k \<times> 'v) list \<Rightarrow> ('v \<times> 'k) list" where
  "invert_dict d = foldl (\<lambda>acc (k, v). AList.update v k acc) [] d"

definition meshio_to_exodus_type :: "(string \<times> string) list" where
  "meshio_to_exodus_type = invert_dict exodus_to_meshio_type"

text \<open>\<open>str.upper()\<close> on the ASCII letters.\<close>

definition upper_char :: "char \<Rightarrow> char" where
  "upper_char c =
     (if 97 \<le> (of_char c :: nat) \<and> (of_char c :: nat) \<le> 122
      then char_of ((of_char c :: nat) - 32) else c)"

definition upper :: "string \<Rightarrow> string" where
  "upper s = map upper_char s"

text \<open>
  The two directions of the registry as the codec uses them:
  \<open>exodus_to_meshio_type[value.elem_type.upper()]\<close> on reading and
  \<open>meshio_to_exodus_type[key]\<close> on writing.
\<close>

definition to_canonical :: "string \<Rightarrow> error + string" where
  "to_canonical disk_tag =
     (case map_of exodus_to_meshio_type (upper disk_tag) of
        None \<Rightarrow> Inl (UnknownElementType (upper disk_tag))
      | Some c \<Rightarrow> Inr c)"

definition to_disk :: "string \<Rightarrow> error + string" where
  "to_disk canonical_tag =
     (case map_of meshio_to_exodus_type canonical_tag of
        None \<Rightarrow> Inl (UnknownElementType canonical_tag)
      | Some t \<Rightarrow> Inr t)"

section \<open>Arrays and dtypes\<close>

text \<open>A numpy array of rank one.\<close>

record 'a array1 =
  dtype1 :: string
  elems :: "'a list"

definition numpy_to_exodus_dtype :: "(string \<times> string) list" where
  "numpy_to_exodus_dtype =
    [(''float32'', ''f4''),
     (''float64'', ''f8''),
     (''int8'', ''i1''),
     (''int16'', ''i2''),
     (''int32'', ''i4''),
     (''int64'', ''i8''),
     (''uint8'', ''u1''),
     (''uint16'', ''u2''),
     (''uint32'', ''u4''),
     (''uint64'', ''u8'')]"

text \<open>
  The storage engine hands a variable's data back as an array of the numpy dtype that
  belongs to the variable's type code.
\<close>

definition numpy_dtype_of :: "string \<Rightarrow> string option" where
  "numpy_dtype_of code = map_of (map (\<lambda>(name, c). (c, name)) numpy_to_exodus_dtype) code"

text \<open>
  Index arrays hold integers. Adding a Python integer to an array of an integer dtype
  keeps the dtype and wraps around at its bounds; this is what \<open>values + 1\<close> and
  \<open>value[:] - 1\<close> do. For the other dtypes the sum is taken exactly, which is what
  floating point does on the integers it represents exactly.
\<close>

definition int_bounds :: "string \<Rightarrow> (int \<times> int) option" where
  "int_bounds dt =
     map_of
       [(''int8'', (- 128, 127)),
        (''int16'', (- 32768, 32767)),
        (''int32'', (- 2147483648, 2147483647)),
        (''int64'', (- 9223372036854775808, 9223372036854775807)),
        (''uint8'', (0, 255)),
        (''uint16'', (0, 65535)),
        (''uint32'', (0, 4294967295)),
        (''uint64'', (0, 18446744073709551615))] dt"

definition wrap :: "string \<Rightarrow> int \<Rightarrow> int" where
  "wrap dt v = (case int_bounds dt of
                  None \<Rightarrow> v
                | Some (lo, hi) \<Rightarrow> lo + (v - lo) mod (hi - lo + 1))"

definition add_scalar :: "string \<Rightarrow> int \<Rightarrow> int \<Rightarrow> int" where
  "add_scalar dt k v = wrap dt (v + k)"

definition in_range :: "string \<Rightarrow> int \<Rightarrow> bool" where
  "in_range dt v = (case int_bounds dt of
                      None \<Rightarrow> True
                    | Some (lo, hi) \<Rightarrow> lo \<le> v \<and> v \<le> hi)"

text \<open>
  What the codec takes from its surroundings: the conversion of a value between two
  dtypes and the dtype of a stack of two arrays (both from the array library); whether
  the storage engine drops a value written past the end of a fixed dimension, as the
  specification describes it, or raises an error; the package version and the time of
  the call (both only for the title).
\<close>

record 'v env =
  cast :: "string \<Rightarrow> string \<Rightarrow> 'v \<Rightarrow> 'v"
  promote :: "string \<Rightarrow> string \<Rightarrow> string"
  drops_past_end :: bool
  version :: string
  now :: string

definition convert :: "'v env \<Rightarrow> string \<Rightarrow> string \<Rightarrow> 'v \<Rightarrow> 'v" where
  "convert env src dst x = (if src = dst then x else cast env src dst x)"

text \<open>\<open>a.T\<close> of a rank-two array.\<close>

definition transpose_array :: "'a array2 \<Rightarrow> 'a array2" where
  "transpose_array a =
     \<lparr>dtype = dtype a, ncols = length (rows a),
      rows = map (\<lambda>j. map (\<lambda>r. r ! j) (rows a)) [0..<ncols a]\<rparr>"

text \<open>\<open>numpy.vstack([a, b])\<close>: the second extents must agree.\<close>

definition vstack :: "'v env \<Rightarrow> 'a array2 \<Rightarrow> 'a array2 \<Rightarrow> error + 'a array2" where
  "vstack env a b =
     (if ncols a \<noteq> ncols b then Inl (StorageError ''vstack'')
      else Inr \<lparr>dtype = (if dtype a = dtype b then dtype a else promote env (dtype a) (dtype b)),
                ncols = ncols a, rows = rows a @ rows b\<rparr>)"

text \<open>A dict built by storing pairs one after the other.\<close>

definition dict_of :: "('k \<times> 'v) list \<Rightarrow> ('k \<times> 'v) list" where
  "dict_of kvs = foldl (\<lambda>acc (k, v). AList.update k v acc) [] kvs"

section \<open>The container\<close>

text \<open>
  A netCDF dataset as the codec sees it: global attributes, dimensions and variables,
  each in the order of creation. A variable has a type code, the names of its
  dimensions, the attribute \<open>elem_type\<close> if it was set, and its data. The data is an
  array of character cells (type code S1), of integers or of values of the type \<open>'v\<close>
  (coordinates and field values, which the codec only moves around).
\<close>

datatype dimension = Fixed nat | Unlimited nat

fun dim_len :: "dimension \<Rightarrow> nat" where
  "dim_len (Fixed n) = n"
| "dim_len (Unlimited n) = n"

datatype attr = StrAttr string | Float32Attr string | IntAttr int

datatype 'v payload =
    Chars "string list"
  | Ints1 "int list"
  | Ints2 nat "int list list"
  | Vals1 "'v list"
  | Vals2 nat "'v list list"
  | Vals3 "'v list list list"

record 'v variable =
  vdtype :: string
  vdims :: "string list"
  elem_type :: "string option"
  vdata :: "'v payload"

record 'v dataset =
  attrs :: "(string \<times> attr) list"
  dimensions :: "(string \<times> dimension) list"
  variables :: "(string \<times> 'v variable) list"

section \<open>Reading (exodus\_io.read)\<close>

text \<open>The five components of the tuple that \<open>read\<close> returns.\<close>

record 'v mesh_data =
  points :: "'v array2"
  cells :: "(string \<times> int array2) list"
  point_data :: "(string \<times> 'v array1) list"
  cell_data :: "(string \<times> 'v array1) list"
  field_data :: "(string \<times> 'v array1) list"

text \<open>The local variables of \<open>read\<close> that the loop over the variables changes.\<close>

record 'v read_state =
  r_points :: "'v array2"
  r_names :: "string list"
  r_pd :: "'v array1 list"
  r_cells :: "(string \<times> int array2) list"

definition init_state :: "nat \<Rightarrow> ('v::zero) read_state" where
  "init_state n =
     \<lparr>r_points = \<lparr>dtype = ''float64'', ncols = 3, rows = replicate n [0, 0, 0]\<rparr>,
      r_names = [], r_pd = [], r_cells = []\<rparr>"

text \<open>
  The branch for \<open>connect<N>\<close>: the registry lookup comes first, then the block is
  shifted to base 0 and stored or stacked.
\<close>

definition read_connect ::
  "'v env \<Rightarrow> 'v variable \<Rightarrow> (string \<times> int array2) list \<Rightarrow> error + (string \<times> int array2) list" where
  "read_connect env val cs =
     (case elem_type val of
        None \<Rightarrow> Inl (StorageError ''elem_type'')
      | Some et \<Rightarrow>
          bind_err (to_canonical et) (\<lambda>meshio_type.
            (case (vdata val, numpy_dtype_of (vdtype val)) of
               (Ints2 n rws, Some dt) \<Rightarrow>
                 (let blk = \<lparr>dtype = dt, ncols = n,
                             rows = map (map (add_scalar dt (- 1))) rws\<rparr> in
                  case map_of cs meshio_type of
                    Some old \<Rightarrow>
                      bind_err (vstack env old blk) (\<lambda>stacked.
                        Inr (AList.update meshio_type stacked cs))
                  | None \<Rightarrow> Inr (AList.update meshio_type blk cs))
             | _ \<Rightarrow> Inl (Unmodelled ''connect''))))"

text \<open>
  \<open>points[:, j] = value[:]\<close>: the column must exist; the source has one value for each
  row or a single value for all of them, and is converted to the dtype of \<open>points\<close>.
\<close>

definition set_column ::
  "'v env \<Rightarrow> nat \<Rightarrow> 'v variable \<Rightarrow> 'v array2 \<Rightarrow> error + 'v array2" where
  "set_column env j val pts =
     (case (vdata val, numpy_dtype_of (vdtype val)) of
        (Vals1 xs, Some dt) \<Rightarrow>
          (if \<not> j < ncols pts then Inl (StorageError ''column'')
           else if length xs = nrows pts then
             Inr (pts\<lparr>rows := map2 (\<lambda>r x. r[j := convert env dt (dtype pts) x]) (rows pts) xs\<rparr>)
           else if length xs = 1 then
             Inr (pts\<lparr>rows := map (\<lambda>r. r[j := convert env dt (dtype pts) (hd xs)]) (rows pts)\<rparr>)
           else Inl (StorageError ''shape''))
      | _ \<Rightarrow> Inl (Unmodelled ''coordinate''))"

text \<open>
  A row of S1 cells read with masking off: a cell holding the zero byte comes back as the
  empty byte string, so joining the cells drops the padding. Only ASCII is modelled.
\<close>

definition is_ascii :: "string \<Rightarrow> bool" where
  "is_ascii s = list_all (\<lambda>c. (of_char c :: nat) < 128) s"

definition decode_row :: "string \<Rightarrow> error + string" where
  "decode_row cs =
     (if is_ascii cs then Inr (filter (\<lambda>c. c \<noteq> CHR 0x00) cs)
      else Inl (Unmodelled ''non-ASCII name''))"

fun decode_rows :: "string list \<Rightarrow> error + string list" where
  "decode_rows [] = Inr []"
| "decode_rows (r # rs) =
     bind_err (decode_row r) (\<lambda>n. bind_err (decode_rows rs) (\<lambda>ns. Inr (n # ns)))"

text \<open>One round of the loop \<open>for key, value in nc.variables.items()\<close>.\<close>

definition read_variable ::
  "'v env \<Rightarrow> string \<times> 'v variable \<Rightarrow> 'v read_state \<Rightarrow> error + 'v read_state" where
  "read_variable env kv st =
     (let key = fst kv; val = snd kv in
      if take 7 key = ''connect'' then
        bind_err (read_connect env val (r_cells st)) (\<lambda>cs. Inr (st\<lparr>r_cells := cs\<rparr>))
      else if key = ''coord'' then
        (case (vdata val, numpy_dtype_of (vdtype val)) of
           (Vals2 n rws, Some dt) \<Rightarrow>
             (if list_all (\<lambda>r. length r = n) rws
              then Inr (st\<lparr>r_points := transpose_array \<lparr>dtype = dt, ncols = n, rows = rws\<rparr>\<rparr>)
              else Inl (Unmodelled ''coord''))
         | _ \<Rightarrow> Inl (Unmodelled ''coord''))
      else if key = ''coordx'' then
        bind_err (set_column env 0 val (r_points st)) (\<lambda>p. Inr (st\<lparr>r_points := p\<rparr>))
      else if key = ''coordy'' then
        bind_err (set_column env 1 val (r_points st)) (\<lambda>p. Inr (st\<lparr>r_points := p\<rparr>))
      else if key = ''coordz'' then
        bind_err (set_column env 2 val (r_points st)) (\<lambda>p. Inr (st\<lparr>r_points := p\<rparr>))
      else if key = ''name_nod_var'' then
        (case vdata val of
           Chars rws \<Rightarrow> bind_err (decode_rows rws) (\<lambda>ns. Inr (st\<lparr>r_names := ns\<rparr>))
         | _ \<Rightarrow> Inl (Unmodelled ''name_nod_var''))
      else if key = ''vals_nod_var'' then
        (case (vdata val, numpy_dtype_of (vdtype val)) of
           (Vals3 steps, Some dt) \<Rightarrow>
             (case steps of
                [] \<Rightarrow> Inl (StorageError ''time step 0'')
              | first # _ \<Rightarrow> Inr (st\<lparr>r_pd := map (\<lambda>r. \<lparr>dtype1 = dt, elems = r\<rparr>) first\<rparr>))
         | _ \<Rightarrow> Inl (Unmodelled ''vals_nod_var''))
      else Inr st)"

fun scan_variables ::
  "'v env \<Rightarrow> (string \<times> 'v variable) list \<Rightarrow> 'v read_state \<Rightarrow> error + 'v read_state" where
  "scan_variables env [] st = Inr st"
| "scan_variables env (kv # rest) st =
     bind_err (read_variable env kv st) (scan_variables env rest)"

definition finish_read :: "'v read_state \<Rightarrow> 'v mesh_data" where
  "finish_read st =
     \<lparr>points = r_points st, cells = r_cells st,
      point_data = dict_of (zip (r_names st) (r_pd st)),
      cell_data = [], field_data = []\<rparr>"

definition read :: "('v::zero) env \<Rightarrow> 'v dataset \<Rightarrow> error + 'v mesh_data" where
  "read env nc =
     (case map_of (dimensions nc) ''num_nodes'' of
        None \<Rightarrow> Inl (StorageError ''num_nodes'')
      | Some d \<Rightarrow>
          bind_err (scan_variables env (variables nc) (init_state (dim_len d))) (\<lambda>st.
            Inr (finish_read st)))"

section \<open>Writing (exodus\_io.write)\<close>

text \<open>\<open>"{}".format(n)\<close> for a natural number: its decimal digits.\<close>

fun str_of_nat :: "nat \<Rightarrow> string" where
  "str_of_nat n =
     (if n < 10 then [char_of (48 + n)]
      else str_of_nat (n div 10) @ [char_of (48 + n mod 10)])"

declare str_of_nat.simps [simp del]

text \<open>
  A row of a character variable along \<open>len_string\<close>: 33 cells, all holding the zero
  byte until written. \<open>for i, letter in enumerate(name): var[k, i] = letter.encode("utf-8")\<close>
  stores the letters one by one; a letter whose index is past the row is dropped or
  raises, as the storage engine has it.
\<close>

definition len_string :: nat where
  "len_string = 33"

definition put_letter :: "'v env \<Rightarrow> string \<Rightarrow> nat \<times> char \<Rightarrow> error + string" where
  "put_letter env row il =
     (if fst il < length row then Inr (row[fst il := snd il])
      else if drops_past_end env then Inr row
      else Inl (StorageError ''len_string''))"

fun put_letters :: "'v env \<Rightarrow> string \<Rightarrow> (nat \<times> char) list \<Rightarrow> error + string" where
  "put_letters env row [] = Inr row"
| "put_letters env row (il # rest) =
     bind_err (put_letter env row il) (\<lambda>row'. put_letters env row' rest)"

definition name_row :: "'v env \<Rightarrow> string \<Rightarrow> error + string" where
  "name_row env name =
     put_letters env (replicate len_string (CHR 0x00)) (zip [0..<length name] name)"

text \<open>The loop \<open>for k, name in enumerate(d.keys())\<close> around it: one row for each name.\<close>

fun name_rows :: "'v env \<Rightarrow> string list \<Rightarrow> error + string list" where
  "name_rows env [] = Inr []"
| "name_rows env (name # rest) =
     bind_err (name_row env name) (\<lambda>r.
     bind_err (name_rows env rest) (\<lambda>rs. Inr (r # rs)))"

definition base_dimensions ::
  "nat \<Rightarrow> nat \<Rightarrow> nat \<Rightarrow> nat \<Rightarrow> nat \<Rightarrow> (string \<times> dimension) list" where
  "base_dimensions num_nodes num_elem num_el_blk num_node_sets num_side_sets =
     [(''num_nodes'', Fixed num_nodes),
      (''num_dim'', Fixed 3),
      (''num_elem'', Fixed num_elem),
      (''num_el_blk'', Fixed num_el_blk),
      (''num_node_sets'', Fixed num_node_sets),
      (''num_side_sets'', Fixed num_side_sets),
      (''len_string'', Fixed len_string),
      (''len_line'', Fixed 81),
      (''four'', Fixed 4),
      (''time_step'', Unlimited 1)]"

definition global_attrs :: "'v env \<Rightarrow> (string \<times> attr) list" where
  "global_attrs env =
     [(''title'', StrAttr (''Created by meshio v'' @ version env @ '', '' @ now env)),
      (''version'', Float32Attr ''5.1''),
      (''api_version'', Float32Attr ''5.1''),
      (''floating_point_word_size'', IntAttr 8)]"

definition time_whole_var :: "string \<times> ('v::zero) variable" where
  "time_whole_var =
     (''time_whole'',
      \<lparr>vdtype = ''f4'', vdims = [''time_step''], elem_type = None, vdata = Vals1 [0]\<rparr>)"

definition coor_names_var :: "string \<times> 'v variable" where
  "coor_names_var =
     (''coor_names'',
      \<lparr>vdtype = ''S1'', vdims = [''num_dim'', ''len_string''], elem_type = None,
       vdata = Chars [(replicate len_string (CHR 0x00))[0 := CHR ''X''],
                      (replicate len_string (CHR 0x00))[0 := CHR ''Y''],
                      (replicate len_string (CHR 0x00))[0 := CHR ''Z'']]\<rparr>)"

text \<open>
  The variable \<open>coord\<close>: the type code comes from the dtype table, the data is
  \<open>points.T\<close>, which fits the dimensions \<open>(num_dim, num_nodes)\<close> when the points have
  three columns.
\<close>

definition write_coord :: "'v array2 \<Rightarrow> error + (string \<times> 'v variable)" where
  "write_coord pts =
     (case map_of numpy_to_exodus_dtype (dtype pts) of
        None \<Rightarrow> Inl (UnsupportedDtype (dtype pts))
      | Some code \<Rightarrow>
          if ncols pts = 3 \<and> wf_array2 pts then
            Inr (''coord'',
                 \<lparr>vdtype = code, vdims = [''num_dim'', ''num_nodes''], elem_type = None,
                  vdata = Vals2 (nrows pts) (rows (transpose_array pts))\<rparr>)
          else Inl (StorageError ''coord''))"

definition eb_prop1_var :: "nat \<Rightarrow> string \<times> 'v variable" where
  "eb_prop1_var num_el_blk =
     (''eb_prop1'',
      \<lparr>vdtype = ''i4'', vdims = [''num_el_blk''], elem_type = None,
       vdata = Ints1 (map int [0..<num_el_blk])\<rparr>)"

text \<open>
  The loop \<open>for k, (key, values) in enumerate(cells.items())\<close>, from block \<open>k\<close> on: two
  dimensions and one variable for each block.
\<close>

fun write_cells ::
  "nat \<Rightarrow> (string \<times> int array2) list
     \<Rightarrow> error + ((string \<times> dimension) list \<times> (string \<times> 'v variable) list)" where
  "write_cells k [] = Inr ([], [])"
| "write_cells k ((key, vals) # rest) =
     (let dim1 = ''num_el_in_blk'' @ str_of_nat (k + 1);
          dim2 = ''num_nod_per_el'' @ str_of_nat (k + 1) in
      case map_of numpy_to_exodus_dtype (dtype vals) of
        None \<Rightarrow> Inl (UnsupportedDtype (dtype vals))
      | Some code \<Rightarrow>
          (case map_of meshio_to_exodus_type key of
             None \<Rightarrow> Inl (UnknownElementType key)
           | Some et \<Rightarrow>
               bind_err (write_cells (k + 1) rest) (\<lambda>(ds, vs).
                 Inr ((dim1, Fixed (nrows vals)) # (dim2, Fixed (ncols vals)) # ds,
                      (''connect'' @ str_of_nat (k + 1),
                       \<lparr>vdtype = code, vdims = [dim1, dim2], elem_type = Some et,
                        vdata = Ints2 (ncols vals)
                                  (map (map (add_scalar (dtype vals) 1)) (rows vals))\<rparr>)
                      # vs))))"

text \<open>
  \<open>node_data[0, k] = data\<close>: one row of \<open>vals_nod_var\<close>, converted to the dtype of the
  variable; the field must have one value for each node.
\<close>

fun store_fields ::
  "'v env \<Rightarrow> string \<Rightarrow> nat \<Rightarrow> (string \<times> 'v array1) list \<Rightarrow> error + 'v list list" where
  "store_fields env dt n [] = Inr []"
| "store_fields env dt n ((name, d) # rest) =
     (if length (elems d) = n then
        bind_err (store_fields env dt n rest) (\<lambda>rs.
          Inr (map (convert env (dtype1 d) dt) (elems d) # rs))
      else Inl (StorageError ''vals_nod_var''))"

definition write_point_data ::
  "'v env \<Rightarrow> nat \<Rightarrow> (string \<times> 'v array1) list
     \<Rightarrow> error + ((string \<times> dimension) list \<times> (string \<times> 'v variable) list)" where
  "write_point_data env num_nodes pd =
     (case pd of
        [] \<Rightarrow> Inr ([], [])
      | (first_key, first_data) # _ \<Rightarrow>
          bind_err (name_rows env (map fst pd)) (\<lambda>names.
            (case map_of numpy_to_exodus_dtype (dtype1 first_data) of
               None \<Rightarrow> Inl (UnsupportedDtype (dtype1 first_data))
             | Some code \<Rightarrow>
                 bind_err (store_fields env (dtype1 first_data) num_nodes pd) (\<lambda>rs.
                   Inr ([(''num_nod_var'', Fixed (length pd))],
                        [(''name_nod_var'',
                          \<lparr>vdtype = ''S1'', vdims = [''num_nod_var'', ''len_string''],
                           elem_type = None, vdata = Chars names\<rparr>),
                         (''vals_nod_var'',
                          \<lparr>vdtype = code,
                           vdims = [''time_step'', ''num_nod_var'', ''num_nodes''],
                           elem_type = None, vdata = Vals3 [rs]\<rparr>)])))))"

text \<open>The loop over the node sets, from set \<open>k\<close> on.\<close>

fun write_nset_arrays ::
  "nat \<Rightarrow> (string \<times> int array1) list
     \<Rightarrow> error + ((string \<times> dimension) list \<times> (string \<times> 'v variable) list)" where
  "write_nset_arrays k [] = Inr ([], [])"
| "write_nset_arrays k ((key, vals) # rest) =
     (let dim1 = ''num_nod_ns'' @ str_of_nat (k + 1) in
      case map_of numpy_to_exodus_dtype (dtype1 vals) of
        None \<Rightarrow> Inl (UnsupportedDtype (dtype1 vals))
      | Some code \<Rightarrow>
          bind_err (write_nset_arrays (k + 1) rest) (\<lambda>(ds, vs).
            Inr ((dim1, Fixed (length (elems vals))) # ds,
                 (''node_ns'' @ str_of_nat (k + 1),
                  \<lparr>vdtype = code, vdims = [dim1], elem_type = None,
                   vdata = Ints1 (map (add_scalar (dtype1 vals) 1) (elems vals))\<rparr>)
                 # vs)))"

definition write_nsets ::
  "'v env \<Rightarrow> (string \<times> int array1) list
     \<Rightarrow> error + ((string \<times> dimension) list \<times> (string \<times> 'v variable) list)" where
  "write_nsets env nsets =
     (if length nsets > 0 then
        bind_err (name_rows env (map fst nsets)) (\<lambda>names.
        bind_err (write_nset_arrays 0 nsets) (\<lambda>(ds, vs).
          Inr (ds,
               [(''ns_prop1'',
                 \<lparr>vdtype = ''i4'', vdims = [''num_node_sets''], elem_type = None,
                  vdata = Ints1 (map int [0..<length nsets])\<rparr>),
                (''ns_names'',
                 \<lparr>vdtype = ''S1'', vdims = [''num_node_sets'', ''len_string''],
                  elem_type = None, vdata = Chars names\<rparr>)] @ vs)))
      else Inr ([], []))"

text \<open>
  The loop over the side sets, from set \<open>k\<close> on: column 0 shifted to base 1, column 1
  as it is. A set with fewer than two columns has no such column.
\<close>

fun write_sset_arrays ::
  "nat \<Rightarrow> (string \<times> int array2) list
     \<Rightarrow> error + ((string \<times> dimension) list \<times> (string \<times> 'v variable) list)" where
  "write_sset_arrays k [] = Inr ([], [])"
| "write_sset_arrays k ((key, vals) # rest) =
     (let dim1 = ''num_side_ss'' @ str_of_nat (k + 1) in
      case map_of numpy_to_exodus_dtype (dtype vals) of
        None \<Rightarrow> Inl (UnsupportedDtype (dtype vals))
      | Some code \<Rightarrow>
          if ncols vals < 2 \<or> \<not> wf_array2 vals then Inl (StorageError ''column'')
          else
            bind_err (write_sset_arrays (k + 1) rest) (\<lambda>(ds, vs).
              Inr ((dim1, Fixed (nrows vals)) # ds,
                   (''elem_ss'' @ str_of_nat (k + 1),
                    \<lparr>vdtype = code, vdims = [dim1], elem_type = None,
                     vdata = Ints1 (map (\<lambda>r. add_scalar (dtype vals) 1 (r ! 0)) (rows vals))\<rparr>)
                   # (''side_ss'' @ str_of_nat (k + 1),
                      \<lparr>vdtype = code, vdims = [dim1], elem_type = None,
                       vdata = Ints1 (map (\<lambda>r. r ! 1) (rows vals))\<rparr>)
                   # vs)))"

definition write_ssets ::
  "'v env \<Rightarrow> (string \<times> int array2) list
     \<Rightarrow> error + ((string \<times> dimension) list \<times> (string \<times> 'v variable) list)" where
  "write_ssets env ssets =
     (if length ssets > 0 then
        bind_err (name_rows env (map fst ssets)) (\<lambda>names.
        bind_err (write_sset_arrays 0 ssets) (\<lambda>(ds, vs).
          Inr (ds,
               [(''ss_prop1'',
                 \<lparr>vdtype = ''i4'', vdims = [''num_side_sets''], elem_type = None,
                  vdata = Ints1 (map int [0..<length ssets])\<rparr>),
                (''ss_names'',
                 \<lparr>vdtype = ''S1'', vdims = [''num_side_sets'', ''len_string''],
                  elem_type = None, vdata = Chars names\<rparr>)] @ vs)))
      else Inr ([], []))"

text \<open>
  The whole of \<open>write\<close> of exodus\_io.py, from the mesh to the content of the
  file (\<open>write\<close> alone is a keyword here). The arguments \<open>cell_data\<close> and
  \<open>field_data\<close> are taken and not used, as in the source.
\<close>

definition write_exodus ::
  "('v::zero) env \<Rightarrow> 'v array2 \<Rightarrow> (string \<times> int array2) list \<Rightarrow> (string \<times> 'v array1) list
     \<Rightarrow> (string \<times> 'v array1) list \<Rightarrow> (string \<times> 'v array1) list
     \<Rightarrow> (string \<times> int array1) list \<Rightarrow> (string \<times> int array2) list
     \<Rightarrow> error + 'v dataset" where
  "write_exodus env pts cs pd cd fd nsets ssets =
     bind_err (write_coord pts) (\<lambda>coord_var.
     bind_err (write_cells 0 cs) (\<lambda>(cdims, cvars).
     bind_err (write_point_data env (nrows pts) pd) (\<lambda>(pdims, pvars).
     bind_err (write_nsets env nsets) (\<lambda>(ndims, nvars).
     bind_err (write_ssets env ssets) (\<lambda>(sdims, svars).
       Inr \<lparr>attrs = global_attrs env,
            dimensions =
              base_dimensions (nrows pts) (sum_list (map (nrows \<circ> snd) cs)) (length cs)
                (length nsets) (length ssets)
              @ cdims @ pdims @ ndims @ sdims,
            variables =
              [time_whole_var, coor_names_var, coord_var, eb_prop1_var (length cs)]
              @ cvars @ pvars @ nvars @ svars\<rparr>)))))"

section \<open>Observations on a container\<close>

text \<open>
  The names of the variables that hold node sets and side sets, as \<open>write\<close> creates
  them, and a container without them.
\<close>

definition set_variable :: "string \<Rightarrow> bool" where
  "set_variable key \<longleftrightarrow>
     key \<in> set [''ns_prop1'', ''ns_names'', ''ss_prop1'', ''ss_names'']
     \<or> take 7 key \<in> set [''node_ns'', ''elem_ss'', ''side_ss'']"

definition without_sets :: "'v dataset \<Rightarrow> 'v dataset" where
  "without_sets nc = nc\<lparr>variables := filter (\<lambda>kv. \<not> set_variable (fst kv)) (variables nc)\<rparr>"

text \<open>The container with every time step of \<open>vals_nod_var\<close> after the first removed.\<close>

definition first_step_only :: "'v dataset \<Rightarrow> 'v dataset" where
  "first_step_only nc =
     nc\<lparr>variables :=
          map (\<lambda>kv. if fst kv = ''vals_nod_var''
                    then (fst kv,
                          (snd kv)\<lparr>vdata := (case vdata (snd kv) of
                                               Vals3 (s # rest) \<Rightarrow> Vals3 [s]
                                             | d \<Rightarrow> d)\<rparr>)
                    else kv)
            (variables nc)\<rparr>"

text \<open>
  The value rows of time step 0 of a variable, each as an array of the variable's
  dtype, and the names that the rows of a character variable decode to.
\<close>

definition first_step_rows :: "'v variable \<Rightarrow> 'v array1 list" where
  "first_step_rows val =
     (case (vdata val, numpy_dtype_of (vdtype val)) of
        (Vals3 (s # rest), Some dt) \<Rightarrow> map (\<lambda>r. \<lparr>dtype1 = dt, elems = r\<rparr>) s
      | _ \<Rightarrow> [])"

definition decoded_names :: "'v variable \<Rightarrow> string list" where
  "decoded_names val =
     (case vdata val of
        Chars rws \<Rightarrow> (case decode_rows rws of Inr ns \<Rightarrow> ns | Inl e \<Rightarrow> [])
      | _ \<Rightarrow> [])"

text \<open>
  The rows, shifted to base 0, of the \<open>connect<N>\<close> blocks of a container whose
  element type maps to the canonical type \<open>c\<close>, one list of rows for each block, in the
  order of the file.
\<close>

definition block_rows :: "string \<Rightarrow> string \<times> 'v variable \<Rightarrow> int list list list" where
  "block_rows c kv =
     (if take 7 (fst kv) = ''connect'' then
        (case elem_type (snd kv) of
           None \<Rightarrow> []
         | Some et \<Rightarrow>
             if to_canonical et = Inr c then
               (case (vdata (snd kv), numpy_dtype_of (vdtype (snd kv))) of
                  (Ints2 n rws, Some dt) \<Rightarrow> [map (map (add_scalar dt (- 1))) rws]
                | _ \<Rightarrow> [])
             else [])
      else [])"

definition blocks :: "string \<Rightarrow> (string \<times> 'v variable) list \<Rightarrow> int list list list" where
  "blocks c vars = concat (map (block_rows c) vars)"


definition names_on_disk :: "(string \<times> 'v variable) list \<Rightarrow> string list" where
  "names_on_disk vars =
     (case map_of vars ''name_nod_var'' of None \<Rightarrow> [] | Some val \<Rightarrow> decoded_names val)"

definition rows_on_disk :: "(string \<times> 'v variable) list \<Rightarrow> 'v array1 list" where
  "rows_on_disk vars =
     (case map_of vars ''vals_nod_var'' of None \<Rightarrow> [] | Some val \<Rightarrow> first_step_rows val)"

text \<open>The rows that a \<open>cells\<close> dict holds for a type, none if it has no entry.\<close>

definition rows_in :: "(string \<times> 'a array2) list \<Rightarrow> string \<Rightarrow> 'a list list" where
  "rows_in cs c = (case map_of cs c of None \<Rightarrow> [] | Some a \<Rightarrow> rows a)"

section \<open>Example containers\<close>

text \<open>
  Small containers on which the properties below are run: an environment whose
  conversions change nothing, two blocks of quadrilaterals under different aliases,
  point data with three time steps, point data with any names and rows, and node and
  side sets.
\<close>

definition plain_env :: "int env" where
  "plain_env = \<lparr>cast = (\<lambda>src dst x. x), promote = (\<lambda>a b. b), drops_past_end = False,
                 version = ''2.3.0'', now = ''2018-01-01T00:00:00''\<rparr>"

definition padded :: "string \<Rightarrow> string" where
  "padded name = take len_string name @ replicate (len_string - length name) (CHR 0x00)"

definition two_blocks_nc :: "int dataset" where
  "two_blocks_nc =
     \<lparr>attrs = [],
      dimensions = [(''num_nodes'', Fixed 4)],
      variables =
        [(''connect1'',
          \<lparr>vdtype = ''i8'', vdims = [''num_el_in_blk1'', ''num_nod_per_el1''],
           elem_type = Some ''QUAD'', vdata = Ints2 4 [[1, 2, 3, 4]]\<rparr>),
         (''connect2'',
          \<lparr>vdtype = ''i8'', vdims = [''num_el_in_blk2'', ''num_nod_per_el2''],
           elem_type = Some ''shell4'', vdata = Ints2 4 [[3, 4, 1, 2], [2, 1, 4, 3]]\<rparr>)]\<rparr>"

definition three_steps_nc :: "int dataset" where
  "three_steps_nc =
     \<lparr>attrs = [],
      dimensions = [(''num_nodes'', Fixed 2)],
      variables =
        [(''name_nod_var'',
          \<lparr>vdtype = ''S1'', vdims = [''num_nod_var'', ''len_string''], elem_type = None,
           vdata = Chars [padded ''u'']\<rparr>),
         (''vals_nod_var'',
          \<lparr>vdtype = ''f8'', vdims = [''time_step'', ''num_nod_var'', ''num_nodes''],
           elem_type = None, vdata = Vals3 [[[1, 2]], [[3, 4]], [[5, 6]]]\<rparr>)]\<rparr>"

definition names_and_rows_nc :: "string list \<Rightarrow> int list list \<Rightarrow> int dataset" where
  "names_and_rows_nc names rws =
     \<lparr>attrs = [],
      dimensions = [(''num_nodes'', Fixed 2)],
      variables =
        [(''name_nod_var'',
          \<lparr>vdtype = ''S1'', vdims = [''num_nod_var'', ''len_string''], elem_type = None,
           vdata = Chars (map padded names)\<rparr>),
         (''vals_nod_var'',
          \<lparr>vdtype = ''f8'', vdims = [''time_step'', ''num_nod_var'', ''num_nodes''],
           elem_type = None, vdata = Vals3 [rws]\<rparr>)]\<rparr>"

definition with_sets_nc :: "int dataset" where
  "with_sets_nc =
     \<lparr>attrs = [],
      dimensions = [(''num_nodes'', Fixed 2), (''num_nod_ns1'', Fixed 2)],
      variables =
        [(''coordx'',
          \<lparr>vdtype = ''f8'', vdims = [''num_nodes''], elem_type = None, vdata = Vals1 [5, 6]\<rparr>),
         (''ns_names'',
          \<lparr>vdtype = ''S1'', vdims = [''num_node_sets'', ''len_string''], elem_type = None,
           vdata = Chars [padded ''left'']\<rparr>),
         (''node_ns1'',
          \<lparr>vdtype = ''i8'', vdims = [''num_nod_ns1''], elem_type = None, vdata = Ints1 [1, 2]\<rparr>),
         (''elem_ss1'',
          \<lparr>vdtype = ''i8'', vdims = [''num_side_ss1''], elem_type = None, vdata = Ints1 [1]\<rparr>),
         (''side_ss1'',
          \<lparr>vdtype = ''i8'', vdims = [''num_side_ss1''], elem_type = None, vdata = Ints1 [3]\<rparr>)]\<rparr>"

section \<open>Properties of the format dispatcher\<close>

lemma scan_suffixes_snoc:
  "scan_suffixes (xs @ [s]) ext out =
     (case scan_suffixes xs ext out of
        (e, ou) \<Rightarrow> (s @ e, case map_of extension_to_filetype (s @ e) of
                               Some f \<Rightarrow> Some f | None \<Rightarrow> ou))"
  by (induction xs arbitrary: ext out) (simp_all add: Let_def)

lemma scan_suffixes_rev:
  "scan_suffixes (rev sufs) [] None =
     (concat sufs,
      case List.find (\<lambda>e. map_of extension_to_filetype e \<noteq> None) (map concat (tails sufs)) of
        Some e \<Rightarrow> map_of extension_to_filetype e
      | None \<Rightarrow> None)"
proof (induction sufs)
  case Nil
  show ?case by simp
next
  case (Cons s sufs)
  show ?case
    by (cases "map_of extension_to_filetype (s @ concat sufs)")
       (simp_all add: scan_suffixes_snoc Cons.IH)
qed

lemma find_known_extension:
  "List.find (\<lambda>e. map_of extension_to_filetype e \<noteq> None) es = Some e
     \<Longrightarrow> \<exists>f. map_of extension_to_filetype e = Some f"
  by (auto simp: find_Some_iff)

lemma scan_is_longest_suffix:
  "filetype_from_filename filename = resolve_longest_suffix filename"
proof (cases "List.find (\<lambda>e. map_of extension_to_filetype e \<noteq> None) (compound_suffixes filename)")
  case None
  then show ?thesis
    by (simp add: filetype_from_filename_def resolve_longest_suffix_def scan_suffixes_rev
        compound_suffixes_def)
next
  case (Some e)
  then obtain f where "map_of extension_to_filetype e = Some f"
    using find_known_extension by blast
  with Some show ?thesis
    by (simp add: filetype_from_filename_def resolve_longest_suffix_def scan_suffixes_rev
        compound_suffixes_def)
qed

text \<open>
  Claim C4. Without an explicit format the dispatcher resolves the format as the
  longest-suffix match against the extension table: the result of the loop is the entry
  of the first compound suffix, longest first, that the table knows, and the failure
  names the whole extension that was tried. In particular \<open>mesh.post.gz\<close> resolves to
  permas, \<open>mesh.xdmf\<close> to xdmf, and \<open>mesh.unknown\<close> fails with UnknownFormat naming
  \<open>.unknown\<close>.
\<close>

theorem filetype_from_filename_longest_suffix:
  "filetype_from_filename filename = resolve_longest_suffix filename
   \<and> compound_suffixes ''mesh.post.gz'' = [''.post.gz'', ''.gz'']
   \<and> filetype_from_filename ''mesh.post.gz'' = Inr ''permas''
   \<and> filetype_from_filename ''mesh.xdmf'' = Inr ''xdmf''
   \<and> filetype_from_filename ''mesh.unknown'' = Inl (UnknownFormat ''.unknown'')"
proof -
  have "compound_suffixes ''mesh.post.gz'' = [''.post.gz'', ''.gz'']"
    by (simp add: compound_suffixes_def dot_suffixes_def)
  moreover have "filetype_from_filename ''mesh.post.gz'' = Inr ''permas''"
    by (simp add: filetype_from_filename_def dot_suffixes_def extension_to_filetype_def)
  moreover have "filetype_from_filename ''mesh.xdmf'' = Inr ''xdmf''"
    by (simp add: filetype_from_filename_def dot_suffixes_def extension_to_filetype_def)
  moreover have "filetype_from_filename ''mesh.unknown'' = Inl (UnknownFormat ''.unknown'')"
    by (simp add: filetype_from_filename_def dot_suffixes_def extension_to_filetype_def)
  ultimately show ?thesis using scan_is_longest_suffix by simp
qed

lemma check_cells_fails:
  "(key, blk) \<in> set cs \<Longrightarrow> arity key = Some n \<Longrightarrow> ncols blk \<noteq> n
     \<Longrightarrow> \<exists>e. check_cells arity cs = Inl e"
  by (induction arity cs rule: check_cells.induct) (auto split: option.splits)

lemma check_cells_malformed:
  "(key, blk) \<in> set cs \<Longrightarrow> arity key = Some n \<Longrightarrow> ncols blk \<noteq> n
     \<Longrightarrow> \<forall>(k, v) \<in> set cs. arity k \<noteq> None
     \<Longrightarrow> check_cells arity cs = Inl MalformedCellBlock"
  by (induction arity cs rule: check_cells.induct) (auto split: option.splits)

text \<open>
  Claim C5. A mesh with a cell block whose row width differs from the arity that the
  table gives for its type never reaches a codec: the dispatcher's write fails. When the
  format resolves and every cell type of the mesh has an arity, the failure is
  MalformedCellBlock.
\<close>

theorem arity_checked_before_codec:
  assumes "(key, blk) \<in> set cs" and "arity key = Some n" and "ncols blk \<noteq> n"
  shows "(\<exists>e. dispatch_write arity filename cs file_format = Inl e)
       \<and> ((\<exists>fmt. resolve_format filename file_format = Inr fmt)
            \<and> (\<forall>(k, v) \<in> set cs. arity k \<noteq> None)
          \<longrightarrow> dispatch_write arity filename cs file_format = Inl MalformedCellBlock)"
proof -
  from assms have "\<exists>e. check_cells arity cs = Inl e" by (rule check_cells_fails)
  then obtain e where e: "check_cells arity cs = Inl e" ..
  have mal: "check_cells arity cs = Inl MalformedCellBlock"
    if "\<forall>(k, v) \<in> set cs. arity k \<noteq> None"
    using assms that by (rule check_cells_malformed)
  have "\<exists>e. dispatch_write arity filename cs file_format = Inl e"
    by (cases "resolve_format filename file_format")
       (simp_all add: dispatch_write_def bind_err_def e)
  moreover have "dispatch_write arity filename cs file_format = Inl MalformedCellBlock"
    if "resolve_format filename file_format = Inr fmt"
      and "\<forall>(k, v) \<in> set cs. arity k \<noteq> None" for fmt
    using that mal by (simp add: dispatch_write_def bind_err_def)
  ultimately show ?thesis by blast
qed

theorem arity_checked_before_codec_witness:
  "dispatch_write [''hexahedron'' \<mapsto> 8] ''out.e''
     [(''hexahedron'', \<lparr>dtype = ''int64'', ncols = 6, rows = [[0, 1, 2, 3, 4, 5 :: int]]\<rparr>)] None
   = Inl MalformedCellBlock
   \<and> dispatch_write [''hexahedron'' \<mapsto> 8] ''out.e''
     [(''hexahedron'', \<lparr>dtype = ''int64'', ncols = 8, rows = [[0, 1, 2, 3, 4, 5, 6, 7 :: int]]\<rparr>)] None
   = Inr Exodus_write"
proof -
  let ?blk = "\<lparr>dtype = ''int64'', ncols = 6, rows = [[0, 1, 2, 3, 4, 5 :: int]]\<rparr>"
  have r: "resolve_format ''out.e'' None = Inr ''exodus''"
    by (simp add: resolve_format_def filetype_from_filename_def dot_suffixes_def
        extension_to_filetype_def)
  have ok: "dispatch_write [''hexahedron'' \<mapsto> 8] ''out.e''
     [(''hexahedron'', \<lparr>dtype = ''int64'', ncols = 8, rows = [[0, 1, 2, 3, 4, 5, 6, 7 :: int]]\<rparr>)] None
   = Inr Exodus_write"
    by (simp add: dispatch_write_def bind_err_def r select_codec_def)
  from arity_checked_before_codec [of "''hexahedron''" ?blk "[(''hexahedron'', ?blk)]"
      "[''hexahedron'' \<mapsto> 8]" 8 "''out.e''" None] r ok
  show ?thesis by simp
qed

section \<open>Properties of the element-type registry\<close>

lemma map_of_foldl_update:
  "map_of (foldl (\<lambda>acc (k, v). AList.update v k acc) acc d) =
     map_of acc ++ map_of (rev (map (\<lambda>(k, v). (v, k)) d))"
proof (induction d arbitrary: acc)
  case Nil
  show ?case by simp
next
  case (Cons kv d)
  obtain k v where kv: "kv = (k, v)" by (cases kv)
  show ?case
    by (auto simp add: kv Cons.IH update_conv' fun_eq_iff map_add_def split: option.splits)
qed

lemma map_of_invert_dict:
  "map_of (invert_dict d) = map_of (rev (map (\<lambda>(k, v). (v, k)) d))"
  by (simp add: invert_dict_def map_of_foldl_update)

lemma invert_dict_SomeD:
  "map_of (invert_dict d) c = Some t \<Longrightarrow> (t, c) \<in> set d"
  by (auto simp: map_of_invert_dict dest!: map_of_SomeD)

lemma invert_dict_keys: "fst ` set (invert_dict d) = snd ` set d"
proof -
  have "dom (map_of (invert_dict d)) = snd ` set d"
    by (force simp: map_of_invert_dict dom_map_of_conv_image_fst)
  then show ?thesis by (simp add: dom_map_of_conv_image_fst)
qed

lemma invert_dict_last:
  "map_of (invert_dict d) c = Some t
     \<Longrightarrow> t = last (map fst (filter (\<lambda>(k, v). v = c) d))"
proof (induction d arbitrary: t rule: rev_induct)
  case Nil
  then show ?case by (simp add: map_of_invert_dict)
next
  case (snoc kv d)
  obtain k v where kv: "kv = (k, v)" by (cases kv)
  show ?case
  proof (cases "v = c")
    case True
    with snoc.prems show ?thesis by (simp add: kv map_of_invert_dict)
  next
    case False
    with snoc.prems have "map_of (invert_dict d) c = Some t"
      by (simp add: kv map_of_invert_dict)
    with snoc.IH False show ?thesis by (simp add: kv)
  qed
qed

lemma registry_keys_distinct: "distinct (map fst exodus_to_meshio_type)"
  by (simp add: exodus_to_meshio_type_def)

lemma registry_keys_upper: "t \<in> fst ` set exodus_to_meshio_type \<Longrightarrow> upper t = t"
  by (auto simp: exodus_to_meshio_type_def upper_def upper_char_def)

lemma to_disk_then_canonical:
  assumes "c \<in> fst ` set meshio_to_exodus_type"
  shows "\<exists>t. to_disk c = Inr t \<and> to_canonical t = Inr c
            \<and> t \<in> fst ` set exodus_to_meshio_type
            \<and> t = last (map fst (filter (\<lambda>(k, v). v = c) exodus_to_meshio_type))"
proof -
  from assms obtain t where t: "map_of meshio_to_exodus_type c = Some t"
    by (metis domD dom_map_of_conv_image_fst)
  then have mem: "(t, c) \<in> set exodus_to_meshio_type"
    by (simp add: meshio_to_exodus_type_def invert_dict_SomeD)
  then have key: "t \<in> fst ` set exodus_to_meshio_type" by force
  from mem have "map_of exodus_to_meshio_type t = Some c"
    using registry_keys_distinct by simp
  with key have "to_canonical t = Inr c"
    by (simp add: to_canonical_def registry_keys_upper)
  moreover from t have "t = last (map fst (filter (\<lambda>(k, v). v = c) exodus_to_meshio_type))"
    unfolding meshio_to_exodus_type_def by (rule invert_dict_last)
  ultimately show ?thesis using t key by (simp add: to_disk_def)
qed

lemma to_canonical_registered:
  assumes "t \<in> fst ` set exodus_to_meshio_type"
  shows "\<exists>c. to_canonical t = Inr c \<and> c \<in> fst ` set meshio_to_exodus_type"
proof -
  from assms obtain c where c: "map_of exodus_to_meshio_type t = Some c"
    by (metis domD dom_map_of_conv_image_fst)
  then have "(t, c) \<in> set exodus_to_meshio_type" by (rule map_of_SomeD)
  then have "c \<in> fst ` set meshio_to_exodus_type"
    by (force simp: meshio_to_exodus_type_def invert_dict_keys)
  with c assms show ?thesis by (simp add: to_canonical_def registry_keys_upper)
qed

text \<open>
  Claim C6. For every canonical tag \<open>c\<close> of the reverse mapping,
  \<open>to_canonical (to_disk c) = c\<close>. For every registered disk tag \<open>t\<close>,
  \<open>to_disk (to_canonical t)\<close> is a registered alias of the same canonical type, namely
  the alias registered last for it, which need not be \<open>t\<close>.
\<close>

theorem registry_round_trip:
  "(\<forall>c \<in> fst ` set meshio_to_exodus_type.
      \<exists>t. to_disk c = Inr t \<and> to_canonical t = Inr c)
   \<and> (\<forall>t \<in> fst ` set exodus_to_meshio_type.
        \<exists>c t'. to_canonical t = Inr c \<and> to_disk c = Inr t'
          \<and> t' \<in> fst ` set exodus_to_meshio_type \<and> to_canonical t' = Inr c
          \<and> t' = last (map fst (filter (\<lambda>(k, v). v = c) exodus_to_meshio_type)))"
proof (intro conjI ballI)
  fix c assume "c \<in> fst ` set meshio_to_exodus_type"
  from to_disk_then_canonical [OF this]
  show "\<exists>t. to_disk c = Inr t \<and> to_canonical t = Inr c" by blast
next
  fix t assume "t \<in> fst ` set exodus_to_meshio_type"
  from to_canonical_registered [OF this] obtain c
    where c: "to_canonical t = Inr c" "c \<in> fst ` set meshio_to_exodus_type" by blast
  from to_disk_then_canonical [OF c(2)] c(1)
  show "\<exists>c t'. to_canonical t = Inr c \<and> to_disk c = Inr t'
          \<and> t' \<in> fst ` set exodus_to_meshio_type \<and> to_canonical t' = Inr c
          \<and> t' = last (map fst (filter (\<lambda>(k, v). v = c) exodus_to_meshio_type))"
    by blast
qed

lemma meshio_to_exodus_type_eval:
  "meshio_to_exodus_type =
    [(''line'', ''BAR2''), (''line3'', ''BEAM3''), (''quad'', ''QUAD4''),
     (''quad8'', ''QUAD8''), (''quad9'', ''QUAD9''), (''quad5'', ''QUAD5''),
     (''triangle'', ''TRI3''), (''triangle7'', ''TRI7''),
     (''triangle6'', ''TRI6''), (''hexahedron'', ''HEX8''),
     (''hexahedron9'', ''HEX9''), (''hexahedron20'', ''HEX20''),
     (''hexahedron27'', ''HEX27''), (''tetra'', ''TETRA''),
     (''tetra4'', ''TETRA4''), (''tetra8'', ''TETRA8''),
     (''tetra10'', ''TETRA10''), (''tetra14'', ''TETRA14''),
     (''pyramid'', ''PYRAMID''), (''wedge'', ''WEDGE'')]"
  by (simp add: meshio_to_exodus_type_def invert_dict_def exodus_to_meshio_type_def)

theorem registry_round_trip_witness:
  "''hexahedron'' \<in> fst ` set meshio_to_exodus_type
   \<and> (\<exists>t. to_disk ''hexahedron'' = Inr t \<and> to_canonical t = Inr ''hexahedron'')
   \<and> ''BEAM'' \<in> fst ` set exodus_to_meshio_type
   \<and> to_canonical ''BEAM'' = Inr ''line'' \<and> to_disk ''line'' = Inr ''BAR2''"
proof -
  have a: "''hexahedron'' \<in> fst ` set meshio_to_exodus_type"
    by (simp add: meshio_to_exodus_type_eval)
  have b: "''BEAM'' \<in> fst ` set exodus_to_meshio_type"
    by (simp add: exodus_to_meshio_type_def)
  have c: "to_canonical ''BEAM'' = Inr ''line''"
    by (simp add: to_canonical_def exodus_to_meshio_type_def upper_def upper_char_def)
  have d: "to_disk ''line'' = Inr ''BAR2''"
    by (simp add: to_disk_def meshio_to_exodus_type_eval)
  from registry_round_trip a
  have "\<exists>t. to_disk ''hexahedron'' = Inr t \<and> to_canonical t = Inr ''hexahedron''"
    by blast
  with a b c d show ?thesis by blast
qed

section \<open>Properties of reading\<close>

lemma bind_err_Inr_iff:
  "bind_err m f = Inr y \<longleftrightarrow> (\<exists>x. m = Inr x \<and> f x = Inr y)"
  by (cases m) (simp_all add: bind_err_def)

lemma bind_err_simps [simp]:
  "bind_err (Inl e) f = Inl e"
  "bind_err (Inr x) f = f x"
  by (simp_all add: bind_err_def)

lemma scan_variables_append:
  "scan_variables env (xs @ ys) st = bind_err (scan_variables env xs st) (scan_variables env ys)"
  by (induction xs arbitrary: st) (simp_all add: bind_err_def split: sum.splits)

lemma read_variable_set_ignored:
  "set_variable (fst kv) \<Longrightarrow> read_variable env kv st = Inr st"
  by (auto simp: set_variable_def read_variable_def Let_def)

lemma bind_err_cong_fun:
  "(\<And>x. f x = g x) \<Longrightarrow> bind_err m f = bind_err m g"
  by (cases m) simp_all

lemma scan_without_sets:
  "scan_variables env (filter (\<lambda>kv. \<not> set_variable (fst kv)) vars) st
     = scan_variables env vars st"
  by (induction vars arbitrary: st)
     (auto simp: read_variable_set_ignored intro: bind_err_cong_fun)

text \<open>
  Claim C8. Whenever \<open>read\<close> succeeds, the fourth and the fifth component of its
  result, \<open>cell_data\<close> and \<open>field_data\<close>, are empty. Node sets and side sets are not
  read back: the result has no component for them, and it is the same with and without
  the variables that hold them.
\<close>

theorem read_ignores_sets:
  "(read env nc = Inr r \<longrightarrow> cell_data r = [] \<and> field_data r = [])
   \<and> read env (without_sets nc) = read env nc"
proof -
  have "cell_data r = [] \<and> field_data r = []" if "read env nc = Inr r"
    using that
    by (auto simp: read_def finish_read_def bind_err_Inr_iff split: option.splits)
  moreover have "read env (without_sets nc) = read env nc"
    by (simp add: read_def without_sets_def scan_without_sets split: option.splits)
  ultimately show ?thesis by blast
qed


theorem read_ignores_sets_witness:
  "read plain_env with_sets_nc =
     Inr \<lparr>points = \<lparr>dtype = ''float64'', ncols = 3, rows = [[5, 0, 0], [6, 0, 0]]\<rparr>,
          cells = [], point_data = [], cell_data = [], field_data = []\<rparr>
   \<and> variables (without_sets with_sets_nc) = [hd (variables with_sets_nc)]
   \<and> read plain_env (without_sets with_sets_nc) = read plain_env with_sets_nc"
proof -
  have "read plain_env with_sets_nc =
     Inr \<lparr>points = \<lparr>dtype = ''float64'', ncols = 3, rows = [[5, 0, 0], [6, 0, 0]]\<rparr>,
          cells = [], point_data = [], cell_data = [], field_data = []\<rparr>"
    by code_simp
  moreover have "variables (without_sets with_sets_nc) = [hd (variables with_sets_nc)]"
    by code_simp
  ultimately show ?thesis
    using read_ignores_sets [of plain_env with_sets_nc] by simp
qed

subsection \<open>Later time steps\<close>

lemma read_variable_first_step:
  "read_variable env
     (if fst kv = ''vals_nod_var''
      then (fst kv, (snd kv)\<lparr>vdata := (case vdata (snd kv) of
                                         Vals3 (s # rest) \<Rightarrow> Vals3 [s] | d \<Rightarrow> d)\<rparr>)
      else kv) st
   = read_variable env kv st"
  by (cases "vdata (snd kv)")
     (auto simp: read_variable_def Let_def split: list.splits option.splits)

lemma scan_first_step:
  "scan_variables env
     (map (\<lambda>kv. if fst kv = ''vals_nod_var''
                then (fst kv, (snd kv)\<lparr>vdata := (case vdata (snd kv) of
                                                   Vals3 (s # rest) \<Rightarrow> Vals3 [s] | d \<Rightarrow> d)\<rparr>)
                else kv) vars) st
   = scan_variables env vars st"
proof (induction vars arbitrary: st)
  case Nil
  show ?case by simp
next
  case (Cons kv vars)
  show ?case
    unfolding list.map scan_variables.simps read_variable_first_step
    by (rule bind_err_cong_fun) (rule Cons.IH)
qed

lemma read_first_step_only: "read env (first_step_only nc) = read env nc"
  by (simp add: read_def first_step_only_def scan_first_step split: option.splits)

subsection \<open>What the loop leaves in the state\<close>

lemma read_variable_pd_other:
  "read_variable env kv st = Inr st' \<Longrightarrow> fst kv \<noteq> ''vals_nod_var'' \<Longrightarrow> r_pd st' = r_pd st"
  by (auto simp: read_variable_def Let_def bind_err_Inr_iff
      split: if_splits payload.splits option.splits prod.splits)

lemma read_variable_pd:
  "read_variable env kv st = Inr st' \<Longrightarrow> fst kv = ''vals_nod_var''
     \<Longrightarrow> r_pd st' = first_step_rows (snd kv)"
  by (auto simp: read_variable_def Let_def first_step_rows_def
      split: if_splits payload.splits option.splits list.splits)

lemma read_variable_names_other:
  "read_variable env kv st = Inr st' \<Longrightarrow> fst kv \<noteq> ''name_nod_var''
     \<Longrightarrow> r_names st' = r_names st"
  by (auto simp: read_variable_def Let_def bind_err_Inr_iff
      split: if_splits payload.splits option.splits prod.splits list.splits)

lemma read_variable_names:
  "read_variable env kv st = Inr st' \<Longrightarrow> fst kv = ''name_nod_var''
     \<Longrightarrow> r_names st' = decoded_names (snd kv)"
  by (auto simp: read_variable_def Let_def decoded_names_def bind_err_Inr_iff
      split: if_splits payload.splits option.splits list.splits)

lemma scan_pd_absent:
  "scan_variables env vars st = Inr st' \<Longrightarrow> ''vals_nod_var'' \<notin> fst ` set vars
     \<Longrightarrow> r_pd st' = r_pd st"
proof (induction vars arbitrary: st)
  case Nil
  then show ?case by simp
next
  case (Cons kv vars)
  from Cons.prems(1) obtain st1 where
    1: "read_variable env kv st = Inr st1" and 2: "scan_variables env vars st1 = Inr st'"
    by (auto simp: bind_err_Inr_iff)
  from Cons.prems(2) have "fst kv \<noteq> ''vals_nod_var''" "''vals_nod_var'' \<notin> fst ` set vars"
    by auto
  with 1 2 Cons.IH show ?case by (simp add: read_variable_pd_other)
qed

lemma scan_names_absent:
  "scan_variables env vars st = Inr st' \<Longrightarrow> ''name_nod_var'' \<notin> fst ` set vars
     \<Longrightarrow> r_names st' = r_names st"
proof (induction vars arbitrary: st)
  case Nil
  then show ?case by simp
next
  case (Cons kv vars)
  from Cons.prems(1) obtain st1 where
    1: "read_variable env kv st = Inr st1" and 2: "scan_variables env vars st1 = Inr st'"
    by (auto simp: bind_err_Inr_iff)
  from Cons.prems(2) have "fst kv \<noteq> ''name_nod_var''" "''name_nod_var'' \<notin> fst ` set vars"
    by auto
  with 1 2 Cons.IH show ?case by (simp add: read_variable_names_other)
qed

lemma scan_pd_present:
  "scan_variables env vars st = Inr st' \<Longrightarrow> distinct (map fst vars)
     \<Longrightarrow> map_of vars ''vals_nod_var'' = Some val \<Longrightarrow> r_pd st' = first_step_rows val"
proof (induction vars arbitrary: st)
  case Nil
  then show ?case by simp
next
  case (Cons kv vars)
  from Cons.prems(1) obtain st1 where
    1: "read_variable env kv st = Inr st1" and 2: "scan_variables env vars st1 = Inr st'"
    by (auto simp: bind_err_Inr_iff)
  show ?case
  proof (cases "fst kv = ''vals_nod_var''")
    case True
    with Cons.prems(2) have "''vals_nod_var'' \<notin> fst ` set vars" by auto
    with 2 have "r_pd st' = r_pd st1" by (rule scan_pd_absent)
    moreover from True Cons.prems(3) have "snd kv = val" by (cases kv) simp
    ultimately show ?thesis using read_variable_pd [OF 1 True] by simp
  next
    case False
    with Cons.prems have "distinct (map fst vars)" "map_of vars ''vals_nod_var'' = Some val"
      by (cases kv; simp)+
    with 2 Cons.IH show ?thesis by blast
  qed
qed

lemma scan_names_present:
  "scan_variables env vars st = Inr st' \<Longrightarrow> distinct (map fst vars)
     \<Longrightarrow> map_of vars ''name_nod_var'' = Some val \<Longrightarrow> r_names st' = decoded_names val"
proof (induction vars arbitrary: st)
  case Nil
  then show ?case by simp
next
  case (Cons kv vars)
  from Cons.prems(1) obtain st1 where
    1: "read_variable env kv st = Inr st1" and 2: "scan_variables env vars st1 = Inr st'"
    by (auto simp: bind_err_Inr_iff)
  show ?case
  proof (cases "fst kv = ''name_nod_var''")
    case True
    with Cons.prems(2) have "''name_nod_var'' \<notin> fst ` set vars" by auto
    with 2 have "r_names st' = r_names st1" by (rule scan_names_absent)
    moreover from True Cons.prems(3) have "snd kv = val" by (cases kv) simp
    ultimately show ?thesis using read_variable_names [OF 1 True] by simp
  next
    case False
    with Cons.prems have "distinct (map fst vars)" "map_of vars ''name_nod_var'' = Some val"
      by (cases kv; simp)+
    with 2 Cons.IH show ?thesis by blast
  qed
qed

lemma scan_names_on_disk:
  assumes "scan_variables env vars (init_state n) = Inr st" and "distinct (map fst vars)"
  shows "r_names st = names_on_disk vars"
proof (cases "map_of vars ''name_nod_var''")
  case None
  then have "''name_nod_var'' \<notin> fst ` set vars" by (simp add: map_of_eq_None_iff)
  with assms(1) have "r_names st = r_names (init_state n :: 'a read_state)"
    by (rule scan_names_absent)
  with None show ?thesis by (simp add: names_on_disk_def init_state_def)
next
  case (Some val)
  with assms show ?thesis by (simp add: names_on_disk_def scan_names_present)
qed

lemma scan_rows_on_disk:
  assumes "scan_variables env vars (init_state n) = Inr st" and "distinct (map fst vars)"
  shows "r_pd st = rows_on_disk vars"
proof (cases "map_of vars ''vals_nod_var''")
  case None
  then have "''vals_nod_var'' \<notin> fst ` set vars" by (simp add: map_of_eq_None_iff)
  with assms(1) have "r_pd st = r_pd (init_state n :: 'a read_state)"
    by (rule scan_pd_absent)
  with None show ?thesis by (simp add: rows_on_disk_def init_state_def)
next
  case (Some val)
  with assms show ?thesis by (simp add: rows_on_disk_def scan_pd_present)
qed

subsection \<open>Dicts built from pairs\<close>

lemma update_new_key:
  "k \<notin> fst ` set al \<Longrightarrow> AList.update k v al = al @ [(k, v)]"
  by (induction al) auto

lemma foldl_update_distinct:
  "distinct (map fst (acc @ kvs))
     \<Longrightarrow> foldl (\<lambda>acc (k, v). AList.update k v acc) acc kvs = acc @ kvs"
proof (induction kvs arbitrary: acc)
  case Nil
  show ?case by simp
next
  case (Cons kv kvs)
  obtain k v where kv: "kv = (k, v)" by (cases kv)
  from Cons.prems have new: "k \<notin> fst ` set acc" by (auto simp: kv)
  from Cons.prems have "distinct (map fst ((acc @ [(k, v)]) @ kvs))" by (simp add: kv)
  from Cons.IH [OF this] new show ?case by (simp add: kv update_new_key)
qed

lemma dict_of_distinct: "distinct (map fst kvs) \<Longrightarrow> dict_of kvs = kvs"
  using foldl_update_distinct [of "[]" kvs] by (simp add: dict_of_def)

lemma length_update_le: "length (AList.update k v al) \<le> Suc (length al)"
  by (induction al) auto

lemma length_foldl_update:
  "length (foldl (\<lambda>acc (k, v). AList.update k v acc) acc kvs) \<le> length acc + length kvs"
proof (induction kvs arbitrary: acc)
  case Nil
  show ?case by simp
next
  case (Cons kv kvs)
  obtain k v where kv: "kv = (k, v)" by (cases kv)
  have "length (foldl (\<lambda>acc (k, v). AList.update k v acc) (AList.update k v acc) kvs)
          \<le> length (AList.update k v acc) + length kvs"
    by (rule Cons.IH)
  also have "\<dots> \<le> Suc (length acc) + length kvs"
    using length_update_le [of k v acc] by simp
  finally show ?case by (simp add: kv)
qed

lemma length_dict_of: "length (dict_of kvs) \<le> length kvs"
  using length_foldl_update [of "[]" kvs] by (simp add: dict_of_def)

lemma distinct_foldl_update:
  "distinct (map fst acc)
     \<Longrightarrow> distinct (map fst (foldl (\<lambda>acc (k, v). AList.update k v acc) acc kvs))"
  by (induction kvs arbitrary: acc) (auto simp: distinct_update)

subsection \<open>Point data\<close>

lemma elems_of_zipped_rows:
  "length ns = length xs
     \<Longrightarrow> map (elems \<circ> snd) (zip ns (map (\<lambda>row. \<lparr>dtype1 = dt, elems = row\<rparr>) xs)) = xs"
  by (induction ns xs rule: list_induct2) simp_all

text \<open>
  Claim C7. When \<open>vals_nod_var\<close> holds more than one time step, the point data that
  \<open>read\<close> returns are the rows of time step 0, paired with the names; the later time
  steps have no influence: the container cut down to time step 0 reads the same.
\<close>

theorem first_time_step_only:
  assumes "distinct (map fst (variables nc))"
    and "map_of (variables nc) ''vals_nod_var'' = Some val"
    and "vdata val = Vals3 (step0 # later)"
    and "numpy_dtype_of (vdtype val) = Some dt"
    and "read env nc = Inr r"
  shows "point_data r =
           dict_of (zip (names_on_disk (variables nc))
                        (map (\<lambda>row. \<lparr>dtype1 = dt, elems = row\<rparr>) step0))
       \<and> (distinct (names_on_disk (variables nc))
            \<and> length (names_on_disk (variables nc)) = length step0
          \<longrightarrow> map fst (point_data r) = names_on_disk (variables nc)
            \<and> map (elems \<circ> snd) (point_data r) = step0)
       \<and> read env (first_step_only nc) = Inr r"
proof -
  from assms(5) obtain d st where
    st: "scan_variables env (variables nc) (init_state (dim_len d)) = Inr st"
    and r: "r = finish_read st"
    by (auto simp: read_def bind_err_Inr_iff split: option.splits)
  let ?names = "names_on_disk (variables nc)"
  let ?rows = "map (\<lambda>row. \<lparr>dtype1 = dt, elems = row\<rparr>) step0"
  have rows: "r_pd st = ?rows"
    using scan_rows_on_disk [OF st assms(1)] assms(2,3,4)
    by (simp add: rows_on_disk_def first_step_rows_def)
  have names: "r_names st = ?names"
    using st assms(1) by (rule scan_names_on_disk)
  have pd: "point_data r = dict_of (zip ?names ?rows)"
    by (simp add: r finish_read_def rows names)
  have "map fst (point_data r) = ?names \<and> map (elems \<circ> snd) (point_data r) = step0"
    if "distinct ?names" and "length ?names = length step0"
  proof -
    from that have "distinct (map fst (zip ?names ?rows))" by simp
    then have z: "point_data r = zip ?names ?rows" by (simp add: pd dict_of_distinct)
    with that(2) show ?thesis by (simp add: elems_of_zipped_rows)
  qed
  with pd assms(5) show ?thesis by (simp add: read_first_step_only)
qed

theorem first_time_step_only_witness:
  "read plain_env three_steps_nc =
     Inr \<lparr>points = \<lparr>dtype = ''float64'', ncols = 3, rows = [[0, 0, 0], [0, 0, 0]]\<rparr>,
          cells = [],
          point_data = [(''u'', \<lparr>dtype1 = ''float64'', elems = [1, 2]\<rparr>)],
          cell_data = [], field_data = []\<rparr>
   \<and> read plain_env (first_step_only three_steps_nc) = read plain_env three_steps_nc"
proof -
  let ?val = "\<lparr>vdtype = ''f8'', vdims = [''time_step'', ''num_nod_var'', ''num_nodes''],
           elem_type = None, vdata = Vals3 [[[1, 2]], [[3, 4]], [[5, 6 :: int]]]\<rparr>"
  have 1: "distinct (map fst (variables three_steps_nc))" by code_simp
  have 2: "map_of (variables three_steps_nc) ''vals_nod_var'' = Some ?val" by code_simp
  have 3: "vdata ?val = Vals3 ([[1, 2]] # [[[3, 4]], [[5, 6]]])" by simp
  have 4: "numpy_dtype_of (vdtype ?val) = Some ''float64''" by code_simp
  have 5: "read plain_env three_steps_nc =
     Inr \<lparr>points = \<lparr>dtype = ''float64'', ncols = 3, rows = [[0, 0, 0], [0, 0, 0]]\<rparr>,
          cells = [],
          point_data = [(''u'', \<lparr>dtype1 = ''float64'', elems = [1, 2]\<rparr>)],
          cell_data = [], field_data = []\<rparr>"
    by code_simp
  from first_time_step_only [OF 1 2 3 4 5] 5 show ?thesis by simp
qed

text \<open>
  Claim C10, amended. When the loop over the variables is through, \<open>read\<close> returns
  whether or not \<open>name_nod_var\<close> and \<open>vals_nod_var\<close> agree. Its point data are the dict
  of the names paired by position with the rows of time step 0: at most as many entries
  as the shorter of the two lists has, exactly so many and in that order when the paired
  names differ from each other, and none when one of the variables is absent.
\<close>

theorem point_data_zip:
  assumes "distinct (map fst (variables nc))"
    and "map_of (dimensions nc) ''num_nodes'' = Some d"
    and "scan_variables env (variables nc) (init_state (dim_len d)) = Inr st"
  shows "read env nc = Inr (finish_read st)
       \<and> point_data (finish_read st)
           = dict_of (zip (names_on_disk (variables nc)) (rows_on_disk (variables nc)))
       \<and> length (point_data (finish_read st))
           \<le> min (length (names_on_disk (variables nc))) (length (rows_on_disk (variables nc)))
       \<and> (distinct (take (length (rows_on_disk (variables nc))) (names_on_disk (variables nc)))
          \<longrightarrow> point_data (finish_read st)
                = zip (names_on_disk (variables nc)) (rows_on_disk (variables nc))
            \<and> length (point_data (finish_read st))
                = min (length (names_on_disk (variables nc)))
                      (length (rows_on_disk (variables nc))))
       \<and> (map_of (variables nc) ''name_nod_var'' = None
            \<or> map_of (variables nc) ''vals_nod_var'' = None
          \<longrightarrow> point_data (finish_read st) = [])"
proof -
  let ?names = "names_on_disk (variables nc)"
  let ?rows = "rows_on_disk (variables nc)"
  have returns: "read env nc = Inr (finish_read st)"
    using assms(2,3) by (simp add: read_def)
  have pd: "point_data (finish_read st) = dict_of (zip ?names ?rows)"
    using scan_names_on_disk [OF assms(3,1)] scan_rows_on_disk [OF assms(3,1)]
    by (simp add: finish_read_def)
  have le: "length (point_data (finish_read st)) \<le> min (length ?names) (length ?rows)"
    using length_dict_of [of "zip ?names ?rows"] by (simp add: pd)
  have eq: "point_data (finish_read st) = zip ?names ?rows
            \<and> length (point_data (finish_read st)) = min (length ?names) (length ?rows)"
    if "distinct (take (length ?rows) ?names)"
  proof -
    have "map fst (zip ?names ?rows) = take (length ?rows) ?names"
      by (cases "length ?names \<le> length ?rows") (simp_all add: map_fst_zip_take min_def)
    with that have "distinct (map fst (zip ?names ?rows))" by simp
    then show ?thesis by (simp add: pd dict_of_distinct)
  qed
  have none: "point_data (finish_read st) = []"
    if "map_of (variables nc) ''name_nod_var'' = None
        \<or> map_of (variables nc) ''vals_nod_var'' = None"
    using that by (auto simp: pd names_on_disk_def rows_on_disk_def dict_of_def)
  from returns pd le eq none show ?thesis by blast
qed

theorem point_data_zip_witness:
  "read plain_env (names_and_rows_nc [''a'', ''b'', ''c''] [[1, 2], [3, 4]]) =
     Inr \<lparr>points = \<lparr>dtype = ''float64'', ncols = 3, rows = [[0, 0, 0], [0, 0, 0]]\<rparr>,
          cells = [],
          point_data = [(''a'', \<lparr>dtype1 = ''float64'', elems = [1, 2]\<rparr>),
                        (''b'', \<lparr>dtype1 = ''float64'', elems = [3, 4]\<rparr>)],
          cell_data = [], field_data = []\<rparr>
   \<and> names_on_disk (variables (names_and_rows_nc [''a'', ''b'', ''c''] [[1, 2], [3, 4]]))
       = [''a'', ''b'', ''c'']
   \<and> length (rows_on_disk (variables (names_and_rows_nc [''a'', ''b'', ''c''] [[1, 2], [3, 4]])))
       = 2"
proof -
  let ?nc = "names_and_rows_nc [''a'', ''b'', ''c''] [[1, 2], [3, 4]]"
  let ?st = "\<lparr>r_points = \<lparr>dtype = ''float64'', ncols = 3, rows = [[0, 0, 0], [0, 0, 0 :: int]]\<rparr>,
             r_names = [''a'', ''b'', ''c''],
             r_pd = [\<lparr>dtype1 = ''float64'', elems = [1, 2]\<rparr>,
                     \<lparr>dtype1 = ''float64'', elems = [3, 4]\<rparr>],
             r_cells = []\<rparr>"
  have 1: "distinct (map fst (variables ?nc))" by code_simp
  have 2: "map_of (dimensions ?nc) ''num_nodes'' = Some (Fixed 2)" by code_simp
  have 3: "scan_variables plain_env (variables ?nc) (init_state (dim_len (Fixed 2))) = Inr ?st"
    by code_simp
  have 4: "names_on_disk (variables ?nc) = [''a'', ''b'', ''c'']" by code_simp
  have 5: "rows_on_disk (variables ?nc)
             = [\<lparr>dtype1 = ''float64'', elems = [1, 2]\<rparr>, \<lparr>dtype1 = ''float64'', elems = [3, 4]\<rparr>]"
    by code_simp
  from point_data_zip [OF 1 2 3] 4 5 show ?thesis by (simp add: finish_read_def)
qed

theorem point_data_count_counterexample:
  "read plain_env (names_and_rows_nc [''a'', ''a'', ''b''] [[1, 2], [3, 4]]) =
     Inr \<lparr>points = \<lparr>dtype = ''float64'', ncols = 3, rows = [[0, 0, 0], [0, 0, 0]]\<rparr>,
          cells = [],
          point_data = [(''a'', \<lparr>dtype1 = ''float64'', elems = [3, 4]\<rparr>)],
          cell_data = [], field_data = []\<rparr>
   \<and> length (names_on_disk (variables (names_and_rows_nc [''a'', ''a'', ''b''] [[1, 2], [3, 4]])))
       = 3
   \<and> length (rows_on_disk (variables (names_and_rows_nc [''a'', ''a'', ''b''] [[1, 2], [3, 4]])))
       = 2
   \<and> length [(''a'', \<lparr>dtype1 = ''float64'', elems = [3, 4 :: int]\<rparr>)] \<noteq> min 3 2"
  by code_simp

subsection \<open>Stacking of blocks\<close>

lemma read_variable_cells_other:
  "read_variable env kv st = Inr st' \<Longrightarrow> take 7 (fst kv) \<noteq> ''connect''
     \<Longrightarrow> r_cells st' = r_cells st"
  by (auto simp: read_variable_def Let_def bind_err_Inr_iff
      split: if_splits payload.splits option.splits prod.splits list.splits)

lemma read_connect_cases:
  assumes "read_connect env val cs = Inr cs'"
  obtains et mt n rws dt new where
    "elem_type val = Some et" "to_canonical et = Inr mt"
    "vdata val = Ints2 n rws" "numpy_dtype_of (vdtype val) = Some dt"
    "cs' = AList.update mt new cs"
    "rows new = rows_in cs mt @ map (map (add_scalar dt (- 1))) rws"
proof -
  from assms obtain et where et: "elem_type val = Some et"
    by (cases "elem_type val") (simp_all add: read_connect_def)
  from assms et obtain mt where mt: "to_canonical et = Inr mt"
    by (cases "to_canonical et") (simp_all add: read_connect_def)
  from assms et mt obtain n rws where d: "vdata val = Ints2 n rws"
    by (cases "vdata val") (simp_all add: read_connect_def)
  from assms et mt d obtain dt where dt: "numpy_dtype_of (vdtype val) = Some dt"
    by (cases "numpy_dtype_of (vdtype val)") (simp_all add: read_connect_def)
  let ?blk = "\<lparr>dtype = dt, ncols = n, rows = map (map (add_scalar dt (- 1))) rws\<rparr>"
  show thesis
  proof (cases "map_of cs mt")
    case None
    with assms et mt d dt have "cs' = AList.update mt ?blk cs"
      by (simp add: read_connect_def)
    moreover from None have "rows ?blk = rows_in cs mt @ map (map (add_scalar dt (- 1))) rws"
      by (simp add: rows_in_def)
    ultimately show ?thesis using et mt d dt that by blast
  next
    case (Some old)
    with assms et mt d dt obtain stacked where
      v: "vstack env old ?blk = Inr stacked" and u: "cs' = AList.update mt stacked cs"
      by (auto simp: read_connect_def bind_err_Inr_iff)
    from v have "rows stacked = rows old @ map (map (add_scalar dt (- 1))) rws"
      by (auto simp: vstack_def split: if_splits)
    with Some have "rows stacked = rows_in cs mt @ map (map (add_scalar dt (- 1))) rws"
      by (simp add: rows_in_def)
    with u show ?thesis using et mt d dt that by blast
  qed
qed

lemma read_variable_cells:
  assumes "read_variable env kv st = Inr st'"
  shows "rows_in (r_cells st') c = rows_in (r_cells st) c @ concat (block_rows c kv)
       \<and> (map_of (r_cells st') c = None
            \<longleftrightarrow> map_of (r_cells st) c = None \<and> block_rows c kv = [])
       \<and> (distinct (map fst (r_cells st)) \<longrightarrow> distinct (map fst (r_cells st')))"
proof (cases "take 7 (fst kv) = ''connect''")
  case False
  with assms have "r_cells st' = r_cells st" by (rule read_variable_cells_other)
  with False show ?thesis by (simp add: block_rows_def)
next
  case True
  with assms obtain cs' where cs': "read_connect env (snd kv) (r_cells st) = Inr cs'"
    and st': "r_cells st' = cs'"
    by (auto simp: read_variable_def Let_def bind_err_Inr_iff)
  from cs' obtain et mt n rws dt new where *:
    "elem_type (snd kv) = Some et" "to_canonical et = Inr mt"
    "vdata (snd kv) = Ints2 n rws" "numpy_dtype_of (vdtype (snd kv)) = Some dt"
    "cs' = AList.update mt new (r_cells st)"
    "rows new = rows_in (r_cells st) mt @ map (map (add_scalar dt (- 1))) rws"
    by (rule read_connect_cases)
  show ?thesis
  proof (cases "c = mt")
    case True
    with * st' \<open>take 7 (fst kv) = ''connect''\<close> show ?thesis
      by (simp add: block_rows_def rows_in_def update_conv' distinct_update)
  next
    case False
    with * st' \<open>take 7 (fst kv) = ''connect''\<close> show ?thesis
      by (simp add: block_rows_def rows_in_def update_conv' distinct_update)
  qed
qed

lemma scan_cells:
  "scan_variables env vars st = Inr st'
     \<Longrightarrow> rows_in (r_cells st') c = rows_in (r_cells st) c @ concat (blocks c vars)
       \<and> (map_of (r_cells st') c = None
            \<longleftrightarrow> map_of (r_cells st) c = None \<and> blocks c vars = [])
       \<and> (distinct (map fst (r_cells st)) \<longrightarrow> distinct (map fst (r_cells st')))"
proof (induction vars arbitrary: st)
  case Nil
  then show ?case by (simp add: blocks_def)
next
  case (Cons kv vars)
  from Cons.prems obtain st1 where
    1: "read_variable env kv st = Inr st1" and 2: "scan_variables env vars st1 = Inr st'"
    by (auto simp: bind_err_Inr_iff)
  from read_variable_cells [OF 1, of c] Cons.IH [OF 2]
  show ?case by (simp add: blocks_def)
qed

lemma single_entry:
  "distinct (map fst al) \<Longrightarrow> map_of al c = Some b \<Longrightarrow> filter (\<lambda>kv. fst kv = c) al = [(c, b)]"
proof (induction al)
  case Nil
  then show ?case by simp
next
  case (Cons kv al)
  show ?case
  proof (cases "fst kv = c")
    case True
    with Cons.prems have "kv = (c, b)" by (cases kv) simp
    moreover have "filter (\<lambda>kv. fst kv = c) al = []"
    proof -
      from True Cons.prems(1) have "c \<notin> fst ` set al" by simp
      then have "\<forall>kv \<in> set al. fst kv \<noteq> c" by force
      then show ?thesis by (simp add: filter_empty_conv)
    qed
    ultimately show ?thesis by simp
  next
    case False
    with Cons show ?thesis by (cases kv) simp
  qed
qed

text \<open>
  Claim C3. When the blocks of a container whose element types map to one canonical
  type \<open>c\<close> are \<open>bs\<close>, in the order of the file, and \<open>read\<close> returns, then its \<open>cells\<close>
  has one entry for \<open>c\<close>, whose rows are the rows of the blocks one after the other.
  For two blocks the number of rows is the sum of theirs, the rows of the first block
  coming first.
\<close>

theorem blocks_are_stacked:
  assumes "read env nc = Inr r"
    and "blocks c (variables nc) = bs" and "bs \<noteq> []"
  shows "\<exists>blk. filter (\<lambda>kv. fst kv = c) (cells r) = [(c, blk)]
           \<and> rows blk = concat bs
           \<and> (\<forall>b1 b2. bs = [b1, b2]
                \<longrightarrow> rows blk = b1 @ b2 \<and> nrows blk = length b1 + length b2)"
proof -
  from assms(1) obtain d st where
    st: "scan_variables env (variables nc) (init_state (dim_len d)) = Inr st"
    and r: "r = finish_read st"
    by (auto simp: read_def bind_err_Inr_iff split: option.splits)
  have init: "r_cells (init_state (dim_len d) :: 'a read_state) = []"
    by (simp add: init_state_def)
  from scan_cells [OF st, of c] assms(2,3)
  have rows: "rows_in (r_cells st) c = concat bs"
    and some: "map_of (r_cells st) c \<noteq> None"
    and dist: "distinct (map fst (r_cells st))"
    by (simp_all add: init rows_in_def del: not_None_eq)
  from some obtain blk where blk: "map_of (r_cells st) c = Some blk"
    by (cases "map_of (r_cells st) c") simp_all
  with rows have "rows blk = concat bs" by (simp add: rows_in_def)
  moreover from dist blk have "filter (\<lambda>kv. fst kv = c) (r_cells st) = [(c, blk)]"
    by (rule single_entry)
  ultimately show ?thesis by (auto simp: r finish_read_def nrows_def)
qed

theorem blocks_are_stacked_witness:
  "read plain_env two_blocks_nc =
     Inr \<lparr>points = \<lparr>dtype = ''float64'', ncols = 3,
                    rows = [[0, 0, 0], [0, 0, 0], [0, 0, 0], [0, 0, 0]]\<rparr>,
          cells = [(''quad'', \<lparr>dtype = ''int64'', ncols = 4,
                               rows = [[0, 1, 2, 3], [2, 3, 0, 1], [1, 0, 3, 2]]\<rparr>)],
          point_data = [], cell_data = [], field_data = []\<rparr>
   \<and> blocks ''quad'' (variables two_blocks_nc)
       = [[[0, 1, 2, 3]], [[2, 3, 0, 1], [1, 0, 3, 2]]]
   \<and> (\<exists>blk. filter (\<lambda>kv. fst kv = ''quad'')
               [(''quad'', \<lparr>dtype = ''int64'', ncols = 4,
                             rows = [[0, 1, 2, 3], [2, 3, 0, 1], [1, 0, 3, 2 :: int]]\<rparr>)]
             = [(''quad'', blk)]
         \<and> rows blk = [[0, 1, 2, 3]] @ [[2, 3, 0, 1], [1, 0, 3, 2]]
         \<and> nrows blk = 1 + 2)"
proof -
  let ?r = "\<lparr>points = \<lparr>dtype = ''float64'', ncols = 3,
                    rows = [[0, 0, 0], [0, 0, 0], [0, 0, 0], [0, 0, 0 :: int]]\<rparr>,
          cells = [(''quad'', \<lparr>dtype = ''int64'', ncols = 4,
                               rows = [[0, 1, 2, 3], [2, 3, 0, 1], [1, 0, 3, 2]]\<rparr>)],
          point_data = [], cell_data = [], field_data = []\<rparr>"
  have r: "read plain_env two_blocks_nc = Inr ?r"
    by code_simp
  have b: "blocks ''quad'' (variables two_blocks_nc)
             = [[[0, 1, 2, 3]], [[2, 3, 0, 1], [1, 0, 3, 2]]]"
    by code_simp
  from blocks_are_stacked [OF r b] r b show ?thesis by simp
qed

end
